theory Spec2Isabelle
  imports Main "HOL-Library.Sublist"
begin

section \<open>Job records and the duplicate filter\<close>

text \<open>
  The extractors hand job listings around as Python dicts. The inline pass of
  \<^verbatim>\<open>base_extractor.extract\<close> builds dicts with the keys title, location, url and
  job_id; \<^verbatim>\<open>extract_job_links\<close> builds dicts with url, title and location only, so
  \<open>job_id\<close> is optional. Python compares dicts key by key, which is equality of records.
  Strings are lists of 8-bit characters.
\<close>

record job =
  title :: string
  location :: string
  url :: string
  job_id :: "string option"

text \<open>
  The accumulation loop shared by both \<^verbatim>\<open>extract\<close> methods
  (\<^verbatim>\<open>for job in page_jobs: if job not in jobs: jobs.append(job)\<close>).
\<close>

fun add_new_jobs :: "job list \<Rightarrow> job list \<Rightarrow> job list" where
  "add_new_jobs jobs [] = jobs"
| "add_new_jobs jobs (job # page_jobs) =
     add_new_jobs (if job \<notin> set jobs then jobs @ [job] else jobs) page_jobs"

subsection \<open>The key the specification names\<close>

text \<open>
  The specification identifies a listing by its title, compared without regard to case
  and whitespace, and its url, compared exactly. \<open>spec_key\<close> follows those words; it is
  not part of the program.
\<close>

definition js_whitespace :: "char \<Rightarrow> bool" where
  "js_whitespace c = (c \<in> set [CHR 0x09, CHR 0x0A, CHR 0x0B, CHR 0x0C, CHR 0x0D, CHR 0x20, CHR 0xA0])"

definition to_lower :: "char \<Rightarrow> char" where
  "to_lower c =
     (case map_of (zip ''ABCDEFGHIJKLMNOPQRSTUVWXYZ'' ''abcdefghijklmnopqrstuvwxyz'') c of
        Some l \<Rightarrow> l
      | None \<Rightarrow> c)"

definition lower :: "string \<Rightarrow> string" where
  "lower s = map to_lower s"

definition spec_key :: "job \<Rightarrow> string \<times> string" where
  "spec_key j = (lower (filter (\<lambda>c. \<not> js_whitespace c) (title j)), url j)"

section \<open>The document as the page scripts see it\<close>

text \<open>
  The scripts passed to \<^verbatim>\<open>page.evaluate\<close> touch the DOM through
  \<^verbatim>\<open>document.querySelectorAll\<close>, \<^verbatim>\<open>container.querySelector\<close> and the properties
  \<^verbatim>\<open>textContent\<close>, \<^verbatim>\<open>href\<close> and \<^verbatim>\<open>tagName\<close>. A selector the browser cannot parse makes
  the query throw. An absent or empty \<^verbatim>\<open>href\<close> is the empty string, which is falsy in
  JavaScript as the missing property is.
\<close>

datatype 'a js = Throws | Value 'a

record element =
  tagName :: string
  textContent :: string
  href :: string

record container =
  self :: element
  querySelector :: "string \<Rightarrow> element option js"

record document =
  querySelectorAll :: "string \<Rightarrow> container list js"

text \<open>\<^verbatim>\<open>self.selectors\<close>: the candidate patterns of each role, in priority order.\<close>

record selectors =
  containers :: "string list"
  title_selectors :: "string list"
  location_selectors :: "string list"
  link_selectors :: "string list"

text \<open>\<^verbatim>\<open>String.prototype.trim\<close> on 8-bit strings.\<close>

definition trim :: "string \<Rightarrow> string" where
  "trim s = rev (dropWhile js_whitespace (rev (dropWhile js_whitespace s)))"

text \<open>\<^verbatim>\<open>url.match(/\d+/)\<close>: the first run of digits, empty when there is none.\<close>

definition is_digit :: "char \<Rightarrow> bool" where
  "is_digit c = (c \<in> set ''0123456789'')"

definition first_digits :: "string \<Rightarrow> string" where
  "first_digits u = takeWhile is_digit (dropWhile (\<lambda>c. \<not> is_digit c) u)"

subsection \<open>The inline script of \<^verbatim>\<open>extract\<close> (base\_extractor.py, lines 159 to 228)\<close>

text \<open>The container loop: no \<^verbatim>\<open>try\<close> surrounds the query, so a throw leaves the script.\<close>

fun find_containers :: "document \<Rightarrow> string list \<Rightarrow> container list js" where
  "find_containers doc [] = Value []"
| "find_containers doc (selector # rest) =
     (case querySelectorAll doc selector of
        Throws \<Rightarrow> Throws
      | Value elements \<Rightarrow>
          if length elements > 0 then Value elements else find_containers doc rest)"

text \<open>
  The title and the location loops: the first element found gives the trimmed text, even
  when that text is empty.
\<close>

fun find_text :: "container \<Rightarrow> string list \<Rightarrow> string js" where
  "find_text c [] = Value []"
| "find_text c (selector # rest) =
     (case querySelector c selector of
        Throws \<Rightarrow> Throws
      | Value None \<Rightarrow> find_text c rest
      | Value (Some el) \<Rightarrow> Value (trim (textContent el)))"

text \<open>The link loop: the first element found that has a non-empty \<^verbatim>\<open>href\<close>.\<close>

fun find_url :: "container \<Rightarrow> string list \<Rightarrow> (string \<times> string) js" where
  "find_url c [] = Value ([], [])"
| "find_url c (selector # rest) =
     (case querySelector c selector of
        Throws \<Rightarrow> Throws
      | Value None \<Rightarrow> find_url c rest
      | Value (Some el) \<Rightarrow>
          if href el \<noteq> [] then Value (href el, first_digits (href el))
          else find_url c rest)"

text \<open>
  The body of \<^verbatim>\<open>containers.forEach\<close>. The three loops run inside one \<^verbatim>\<open>try\<close>, whose
  \<^verbatim>\<open>catch\<close> only logs: a throw in any of them ends the work on this container.
\<close>

definition process_container :: "selectors \<Rightarrow> container \<Rightarrow> job option" where
  "process_container sel c =
     (case find_text c (title_selectors sel) of
        Throws \<Rightarrow> None
      | Value t \<Rightarrow>
          (case find_text c (location_selectors sel) of
             Throws \<Rightarrow> None
           | Value l \<Rightarrow>
               (case find_url c (link_selectors sel) of
                  Throws \<Rightarrow> None
                | Value (u, i) \<Rightarrow>
                    if t \<noteq> [] \<and> (u \<noteq> [] \<or> l \<noteq> [])
                    then Some \<lparr>title = t, location = l, url = u, job_id = Some i\<rparr>
                    else None)))"

definition page_jobs_script :: "selectors \<Rightarrow> document \<Rightarrow> job list js" where
  "page_jobs_script sel doc =
     (case find_containers doc (containers sel) of
        Throws \<Rightarrow> Throws
      | Value cs \<Rightarrow> Value (List.map_filter (process_container sel) cs))"

subsection \<open>The script of \<^verbatim>\<open>extract_job_links\<close> (base\_extractor.py, lines 285 to 357)\<close>

fun safeQuerySelector :: "container \<Rightarrow> string list \<Rightarrow> element option" where
  "safeQuerySelector c [] = None"
| "safeQuerySelector c (selector # rest) =
     (case querySelector c selector of
        Throws \<Rightarrow> safeQuerySelector c rest
      | Value None \<Rightarrow> safeQuerySelector c rest
      | Value (Some found) \<Rightarrow> Some found)"

text \<open>\<^verbatim>\<open>findJobElements\<close>, with \<open>elements\<close> the array built so far.\<close>

fun findJobElements_from :: "document \<Rightarrow> container list \<Rightarrow> string list \<Rightarrow> container list" where
  "findJobElements_from doc elements [] = elements"
| "findJobElements_from doc elements (selector # rest) =
     (case querySelectorAll doc selector of
        Throws \<Rightarrow> findJobElements_from doc elements rest
      | Value found \<Rightarrow> findJobElements_from doc (elements @ found) rest)"

definition findJobElements :: "document \<Rightarrow> string list \<Rightarrow> container list" where
  "findJobElements doc sels = findJobElements_from doc [] sels"

text \<open>\<^verbatim>\<open>link?.href\<close> as a condition.\<close>

definition has_href :: "element option \<Rightarrow> bool" where
  "has_href link = (case link of None \<Rightarrow> False | Some el \<Rightarrow> href el \<noteq> [])"

text \<open>
  The loop over \<^verbatim>\<open>linkSelectors\<close>: \<open>link\<close> is overwritten by every candidate and the
  loop stops at the first one that has an \<^verbatim>\<open>href\<close>.
\<close>

fun find_link :: "container \<Rightarrow> element option \<Rightarrow> string list \<Rightarrow> element option" where
  "find_link c link [] = link"
| "find_link c link (linkSelector # rest) =
     (let link' = safeQuerySelector c [linkSelector]
      in if has_href link' then link' else find_link c link' rest)"

text \<open>
  The body of \<^verbatim>\<open>jobElements.forEach\<close>: the record the container contributes, if any.
  \<^verbatim>\<open>a || b\<close> on strings takes \<open>b\<close> when \<open>a\<close> is empty.
\<close>

definition link_of :: "selectors \<Rightarrow> container \<Rightarrow> element option" where
  "link_of sel c =
     (let link = find_link c None (link_selectors sel)
      in if \<not> has_href link \<and> tagName (self c) = ''A'' then Some (self c) else link)"

definition container_job :: "selectors \<Rightarrow> container \<Rightarrow> job option" where
  "container_job sel c =
     (case link_of sel c of
        None \<Rightarrow> None
      | Some link \<Rightarrow>
          if href link \<noteq> [] then
            (let t = (case safeQuerySelector c (title_selectors sel) of
                        None \<Rightarrow> textContent link
                      | Some el \<Rightarrow>
                          if textContent el \<noteq> [] then textContent el else textContent link);
                 l = (case safeQuerySelector c (location_selectors sel) of
                        None \<Rightarrow> []
                      | Some el \<Rightarrow> textContent el)
             in if trim t \<noteq> []
                then Some \<lparr>title = trim t, location = trim l, url = href link, job_id = None\<rparr>
                else None)
          else None)"

text \<open>
  \<^verbatim>\<open>jobs\<close> is a \<^verbatim>\<open>Set\<close> of JSON strings with a fixed key order, read back in
  insertion order: a record is added unless an equal one is already there.
\<close>

fun add_to_set :: "job list \<Rightarrow> container list \<Rightarrow> selectors \<Rightarrow> job list" where
  "add_to_set jobs [] sel = jobs"
| "add_to_set jobs (c # cs) sel =
     (case container_job sel c of
        None \<Rightarrow> add_to_set jobs cs sel
      | Some j \<Rightarrow> add_to_set (if j \<in> set jobs then jobs else jobs @ [j]) cs sel)"

definition job_links_script :: "selectors \<Rightarrow> document \<Rightarrow> job list" where
  "job_links_script sel doc = add_to_set [] (findJobElements doc (containers sel)) sel"

section \<open>The browser as the Python code drives it\<close>

text \<open>
  Every awaited call on the page either returns or raises, and may change the browser.
  The browser is a state of an arbitrary type \<open>'s\<close>; a call is a function from the state
  to its outcome and the state after it. \<^verbatim>\<open>asyncio.sleep\<close> and \<^verbatim>\<open>print\<close> are left out:
  time and the console are not part of the state.
\<close>

datatype 'a result = Raises | Returns 'a

definition ret :: "'a \<Rightarrow> 's \<Rightarrow> 'a result \<times> 's" where
  "ret a s = (Returns a, s)"

definition raise :: "'s \<Rightarrow> 'a result \<times> 's" where
  "raise s = (Raises, s)"

text \<open>\<^verbatim>\<open>x = await m\<close> followed by the rest \<open>f x\<close>: an exception in \<open>m\<close> skips the rest.\<close>

definition await :: "('s \<Rightarrow> 'a result \<times> 's) \<Rightarrow> ('a \<Rightarrow> 's \<Rightarrow> 'b result \<times> 's) \<Rightarrow> 's \<Rightarrow> 'b result \<times> 's" where
  "await m f s = (case m s of (Raises, s') \<Rightarrow> (Raises, s') | (Returns a, s') \<Rightarrow> f a s')"

text \<open>\<^verbatim>\<open>try: body except: handler\<close>; the handler starts in the state the body left.\<close>

definition try_except :: "('s \<Rightarrow> 'a result \<times> 's) \<Rightarrow> ('s \<Rightarrow> 'a result \<times> 's) \<Rightarrow> 's \<Rightarrow> 'a result \<times> 's" where
  "try_except body handler s =
     (case body s of (Raises, s') \<Rightarrow> handler s' | (Returns a, s') \<Rightarrow> (Returns a, s'))"

type_synonym handle = nat

text \<open>
  The calls the extractors make. \<open>wait_for_selector\<close> and \<open>query_selector_all\<close> give the
  truth value of what they return, which is all the code reads. \<open>wait_for_selector_list\<close>
  is the call of \<^verbatim>\<open>base2_extractor.extract\<close> that passes a list of selectors.
  \<open>page_document\<close> is the transport of \<^verbatim>\<open>page.evaluate\<close>: it raises, or gives the
  document the script runs on. \<open>get_attribute\<close> reads \<^verbatim>\<open>href\<close>.
\<close>

record 's playwright =
  new_context :: "'s \<Rightarrow> unit result \<times> 's"
  new_page :: "'s \<Rightarrow> unit result \<times> 's"
  goto :: "string \<Rightarrow> 's \<Rightarrow> unit result \<times> 's"
  wait_for_load_state :: "'s \<Rightarrow> unit result \<times> 's"
  wait_for_selector :: "string \<Rightarrow> 's \<Rightarrow> bool result \<times> 's"
  wait_for_selector_list :: "'s \<Rightarrow> unit result \<times> 's"
  query_selector_all :: "string \<Rightarrow> 's \<Rightarrow> bool result \<times> 's"
  page_document :: "'s \<Rightarrow> document result \<times> 's"
  content :: "'s \<Rightarrow> string result \<times> 's"
  reload :: "'s \<Rightarrow> unit result \<times> 's"
  screenshot :: "'s \<Rightarrow> unit result \<times> 's"
  close :: "'s \<Rightarrow> unit result \<times> 's"
  query_selector :: "string \<Rightarrow> 's \<Rightarrow> handle option result \<times> 's"
  is_visible :: "handle \<Rightarrow> 's \<Rightarrow> bool result \<times> 's"
  get_attribute :: "handle \<Rightarrow> 's \<Rightarrow> string option result \<times> 's"
  click :: "handle \<Rightarrow> 's \<Rightarrow> unit result \<times> 's"

text \<open>\<^verbatim>\<open>page.evaluate(script)\<close>: an exception thrown by the script is raised in Python.\<close>

definition evaluate :: "'s playwright \<Rightarrow> (document \<Rightarrow> 'a js) \<Rightarrow> 's \<Rightarrow> 'a result \<times> 's" where
  "evaluate pw script =
     await (page_document pw) (\<lambda>doc. case script doc of Throws \<Rightarrow> raise | Value v \<Rightarrow> ret v)"

subsection \<open>\<^verbatim>\<open>JobScraper.wait_for_page_load\<close> (scraper.py, lines 64 to 89)\<close>

definition container_patterns :: "string list" where
  \<open>container_patterns =
     [''.job-tile'', ''.jobs-list'', ''.job-card'', ''div[class*="job"]'',
      ''div[class*="career"]'', ''[data-job-id]'', ''[class*="job-item"]'']\<close>

text \<open>The loop over the container patterns; the result is \<^verbatim>\<open>content_found\<close>.\<close>

fun find_content :: "'s playwright \<Rightarrow> string list \<Rightarrow> 's \<Rightarrow> bool \<times> 's" where
  "find_content pw [] s = (False, s)"
| "find_content pw (pattern # rest) s =
     (case wait_for_selector pw pattern s of
        (Raises, s') \<Rightarrow> find_content pw rest s'
      | (Returns el, s') \<Rightarrow> if el then (True, s') else find_content pw rest s')"

text \<open>\<^verbatim>\<open>t in c\<close> on strings.\<close>

fun contains :: "string \<Rightarrow> string \<Rightarrow> bool" where
  "contains [] t = (t = [])"
| "contains (c # cs) t = (prefix t (c # cs) \<or> contains cs t)"

definition has_job_terms :: "string \<Rightarrow> bool" where
  "has_job_terms c =
     (contains (lower c) ''job'' \<or> contains (lower c) ''career'' \<or> contains (lower c) ''position'')"

definition wait_for_page_load :: "'s playwright \<Rightarrow> 's \<Rightarrow> bool result \<times> 's" where
  "wait_for_page_load pw =
     try_except
       (await (wait_for_load_state pw) (\<lambda>_ s.
          case find_content pw container_patterns s of
            (content_found, s') \<Rightarrow>
              if \<not> content_found
              then await (content pw) (\<lambda>c. ret (has_job_terms c)) s'
              else ret content_found s'))
       (ret False)"

subsection \<open>\<^verbatim>\<open>extract_job_links\<close> (base\_extractor.py, lines 264 to 363)\<close>

definition extract_job_links :: "'s playwright \<Rightarrow> selectors \<Rightarrow> 's \<Rightarrow> job list result \<times> 's" where
  "extract_job_links pw sel =
     try_except
       (await (wait_for_page_load pw) (\<lambda>loaded.
          if \<not> loaded then
            await (reload pw) (\<lambda>_.
            await (wait_for_page_load pw) (\<lambda>loaded_again.
              if \<not> loaded_again then ret []
              else evaluate pw (\<lambda>doc. Value (job_links_script sel doc))))
          else evaluate pw (\<lambda>doc. Value (job_links_script sel doc))))
       (ret [])"

subsection \<open>\<^verbatim>\<open>try_next_page\<close> (base\_extractor.py, lines 365 to 483)\<close>

definition next_page_selectors :: "string list" where
  \<open>next_page_selectors =
     [''[aria-label*="Next"]'', ''[aria-label*="next"]'', ''[class*="next"]'',
      ''[class*="Next"]'', ''a[rel="next"]'', ''.next-page'', ''.nextPage'',
      ''.pagination__next'', ''button[aria-label*="next"]'',
      ''button[aria-label*="Next"]'', ''button[class*="next"]'', ''button[class*="Next"]'',
      ''button.next'', ''button.Next'', ''[data-action*="next"]'',
      ''[data-action*="Next"]'', ''.pagination li:last-child a'', ''.pagination__next a'',
      ''[class*="pagination-next"]'', ''[class*="pager-next"]'', ''.next-link'',
      ''[class*="arrow-next"]'', ''[class*="arrow_next"]'', ''[class*="chevron-right"]'',
      ''[aria-label="Forward"]'', ''[aria-label="Next Page"]'', ''#frmPagination'',
      ''form[id*="pagination"]'', ''form[class*="pagination"]'', ''a:contains("Next")'',
      ''a:contains("next")'', ''a:contains("Next Page")'', ''a:contains("Show More")'',
      ''[data-page="next"]'', ''[data-navigation="next"]'', ''[data-test*="next"]'',
      ''[data-testid*="next"]'', ''.load-more'', ''.loadMore'', ''.show-more'',
      ''.showMore'', ''[class*="next-icon"]'', ''[class*="nextIcon"]'', ''.icon-next'',
      ''.iconNext'', ''[class*="pagination-next"]'', ''[class*="pager-next"]'',
      ''[class*="paginate-next"]'', ''a[href*="page="]'', ''a[href*="pageNumber="]'',
      ''a[href*="pageNum="]'', ''[role="button"][aria-label*="next"]'',
      ''[role="button"][aria-label*="Next"]'', ''[aria-controls*="pagination"]'']\<close>

text \<open>
  The body of the \<^verbatim>\<open>try\<close> for one selector. \<open>Returns True\<close> is \<^verbatim>\<open>return True\<close>;
  \<open>Returns False\<close> is falling out of the \<^verbatim>\<open>if\<close>. The attribute is read twice, and
  \<^verbatim>\<open>page.goto(None)\<close> raises.
\<close>

definition try_selector :: "'s playwright \<Rightarrow> string \<Rightarrow> 's \<Rightarrow> bool result \<times> 's" where
  "try_selector pw selector =
     await (query_selector pw selector) (\<lambda>next_button.
       case next_button of
         None \<Rightarrow> ret False
       | Some b \<Rightarrow>
           await (is_visible pw b) (\<lambda>visible.
             if visible then
               await (get_attribute pw b) (\<lambda>h.
               await (if h \<noteq> None \<and> h \<noteq> Some []
                      then await (get_attribute pw b) (\<lambda>h'.
                             case h' of None \<Rightarrow> raise | Some u \<Rightarrow> goto pw u)
                      else click pw b) (\<lambda>_.
               await (wait_for_load_state pw) (\<lambda>_. ret True)))
             else ret False))"

fun try_selectors :: "'s playwright \<Rightarrow> string list \<Rightarrow> 's \<Rightarrow> bool result \<times> 's" where
  "try_selectors pw [] s = (Returns False, s)"
| "try_selectors pw (selector # rest) s =
     (case try_selector pw selector s of
        (Raises, s') \<Rightarrow> try_selectors pw rest s'
      | (Returns found, s') \<Rightarrow>
          if found then (Returns True, s') else try_selectors pw rest s')"

definition try_next_page :: "'s playwright \<Rightarrow> 's \<Rightarrow> bool result \<times> 's" where
  "try_next_page pw = try_selectors pw next_page_selectors"

subsection \<open>\<^verbatim>\<open>extract\<close> (base\_extractor.py, lines 126 to 262)\<close>

text \<open>
  The loop that waits for a container before the pages are read (lines 138 to 147); its
  result is not used afterwards, only the browser has moved on.
\<close>

fun probe_containers :: "'s playwright \<Rightarrow> string list \<Rightarrow> 's \<Rightarrow> 's" where
  "probe_containers pw [] s = s"
| "probe_containers pw (container_selector # rest) s =
     (case await (wait_for_selector pw container_selector)
             (\<lambda>_. query_selector_all pw container_selector) s of
        (Raises, s') \<Rightarrow> probe_containers pw rest s'
      | (Returns found, s') \<Rightarrow> if found then s' else probe_containers pw rest s')"

text \<open>The \<^verbatim>\<open>while\<close> loop, from its test on, with the jobs gathered so far.\<close>

function extract_pages ::
  "'s playwright \<Rightarrow> selectors \<Rightarrow> int \<Rightarrow> int \<Rightarrow> job list \<Rightarrow> 's \<Rightarrow> job list result \<times> 's" where
  "extract_pages pw sel max_pages current_page jobs s =
     (if current_page \<le> max_pages then
        (case wait_for_load_state pw s of
           (Raises, s1) \<Rightarrow> (Raises, s1)
         | (Returns _, s1) \<Rightarrow>
             (case evaluate pw (page_jobs_script sel) s1 of
                (Raises, s2) \<Rightarrow> (Raises, s2)
              | (Returns page_jobs, s2) \<Rightarrow>
                  if current_page \<ge> max_pages
                  then (Returns (add_new_jobs jobs page_jobs), s2)
                  else
                    (case try_next_page pw s2 of
                       (Raises, s3) \<Rightarrow> (Raises, s3)
                     | (Returns next_page_found, s3) \<Rightarrow>
                         if \<not> next_page_found
                         then (Returns (add_new_jobs jobs page_jobs), s3)
                         else extract_pages pw sel max_pages (current_page + 1)
                                (add_new_jobs jobs page_jobs) s3)))
      else (Returns jobs, s))"
  by pat_completeness auto
termination
  by (relation "measure (\<lambda>(pw, sel, max_pages, current_page, jobs, s). nat (max_pages - current_page))")
     auto

declare extract_pages.simps [simp del]

text \<open>
  The \<^verbatim>\<open>except\<close> clause: the screenshot is guarded by its own \<^verbatim>\<open>try\<close>, the call of
  \<^verbatim>\<open>page.close\<close> after it is not.
\<close>

definition extract_handler :: "'s playwright \<Rightarrow> 's \<Rightarrow> job list result \<times> 's" where
  "extract_handler pw =
     await (try_except (screenshot pw) (ret ())) (\<lambda>_.
     await (close pw) (\<lambda>_. ret []))"

text \<open>
  \<open>extract_base\<close> is \<^verbatim>\<open>BaseExtractor.extract\<close> of base\_extractor.py.
  When \<^verbatim>\<open>new_page\<close> raises, \<^verbatim>\<open>page\<close> is not among the locals and the handler returns
  the empty list at once.
\<close>

definition extract_base ::
  "'s playwright \<Rightarrow> selectors \<Rightarrow> string \<Rightarrow> int \<Rightarrow> 's \<Rightarrow> job list result \<times> 's" where
  "extract_base pw sel base_url max_pages s =
     (case new_page pw s of
        (Raises, s0) \<Rightarrow> (Returns [], s0)
      | (Returns _, s0) \<Rightarrow>
          try_except
            (await (goto pw base_url) (\<lambda>_.
             await (wait_for_load_state pw) (\<lambda>_.
             await (\<lambda>s. (Returns (), probe_containers pw (containers sel) s)) (\<lambda>_.
             await (extract_pages pw sel max_pages 1 []) (\<lambda>jobs.
             await (close pw) (\<lambda>_. ret jobs))))))
            (extract_handler pw) s0)"

text \<open>
  The run from the head of the \<^verbatim>\<open>while\<close> loop on, inside the \<^verbatim>\<open>try\<close> of \<open>extract_base\<close>:
  the loop, \<^verbatim>\<open>page.close\<close>, the return, and the handler around them.
\<close>

definition run_pages ::
  "'s playwright \<Rightarrow> selectors \<Rightarrow> int \<Rightarrow> int \<Rightarrow> job list \<Rightarrow> 's \<Rightarrow> job list result \<times> 's" where
  "run_pages pw sel max_pages current_page jobs =
     try_except
       (await (extract_pages pw sel max_pages current_page jobs) (\<lambda>jobs'.
        await (close pw) (\<lambda>_. ret jobs')))
       (extract_handler pw)"

subsection \<open>\<^verbatim>\<open>extract\<close> of base2\_extractor.py (lines 87 to 184)\<close>

definition max_retries :: nat where
  "max_retries = 3"

text \<open>One pass through the \<^verbatim>\<open>try\<close> of the retry loop (lines 121 to 135).\<close>

definition load_attempt :: "'s playwright \<Rightarrow> string \<Rightarrow> 's \<Rightarrow> unit result \<times> 's" where
  "load_attempt pw base_url =
     await (goto pw base_url) (\<lambda>_.
     try_except (wait_for_selector_list pw) (wait_for_load_state pw))"

text \<open>\<^verbatim>\<open>for attempt in range(max_retries)\<close>, over the attempts still to make.\<close>

fun load_with_retries :: "'s playwright \<Rightarrow> string \<Rightarrow> nat list \<Rightarrow> 's \<Rightarrow> unit result \<times> 's" where
  "load_with_retries pw base_url [] s = (Returns (), s)"
| "load_with_retries pw base_url (attempt # rest) s =
     (case load_attempt pw base_url s of
        (Returns _, s') \<Rightarrow> (Returns (), s')
      | (Raises, s') \<Rightarrow>
          if int attempt = int max_retries - 1 then (Raises, s')
          else load_with_retries pw base_url rest s')"

function extract_pages2 ::
  "'s playwright \<Rightarrow> selectors \<Rightarrow> int \<Rightarrow> int \<Rightarrow> job list \<Rightarrow> 's \<Rightarrow> job list result \<times> 's" where
  "extract_pages2 pw sel max_pages current_page all_jobs s =
     (if current_page \<le> max_pages then
        (case extract_job_links pw sel s of
           (Raises, s1) \<Rightarrow> (Raises, s1)
         | (Returns jobs, s1) \<Rightarrow>
             if current_page \<ge> max_pages
             then (Returns (add_new_jobs all_jobs jobs), s1)
             else
               (case try_next_page pw s1 of
                  (Raises, s2) \<Rightarrow> (Raises, s2)
                | (Returns next_page_found, s2) \<Rightarrow>
                    if \<not> next_page_found
                    then (Returns (add_new_jobs all_jobs jobs), s2)
                    else extract_pages2 pw sel max_pages (current_page + 1)
                           (add_new_jobs all_jobs jobs) s2))
      else (Returns all_jobs, s))"
  by pat_completeness auto
termination
  by (relation "measure (\<lambda>(pw, sel, max_pages, current_page, all_jobs, s). nat (max_pages - current_page))")
     auto

declare extract_pages2.simps [simp del]

definition extract_base2 ::
  "'s playwright \<Rightarrow> selectors \<Rightarrow> string \<Rightarrow> int \<Rightarrow> 's \<Rightarrow> job list result \<times> 's" where
  "extract_base2 pw sel base_url max_pages s =
     (case new_context pw s of
        (Raises, s0) \<Rightarrow> (Returns [], s0)
      | (Returns _, s0) \<Rightarrow>
          (case new_page pw s0 of
             (Raises, s1) \<Rightarrow> (Returns [], s1)
           | (Returns _, s1) \<Rightarrow>
               try_except
                 (await (load_with_retries pw base_url [0..<max_retries]) (\<lambda>_.
                  await (extract_pages2 pw sel max_pages 1 []) (\<lambda>all_jobs.
                  await (close pw) (\<lambda>_. ret all_jobs))))
                 (extract_handler pw) s1))"

section \<open>Example records, documents and pages\<close>

text \<open>Three records of one listing: the same title and url up to case, two locations.\<close>

definition job_pune :: job where
  "job_pune = \<lparr>title = ''Engineer'', location = ''Pune'', url = ''https://x.test/jobs/1'',
     job_id = Some ''1''\<rparr>"

definition job_delhi :: job where
  "job_delhi = \<lparr>title = ''Engineer'', location = ''Delhi'', url = ''https://x.test/jobs/1'',
     job_id = Some ''1''\<rparr>"

definition job_upper :: job where
  "job_upper = \<lparr>title = ''ENGINEER'', location = ''Pune'', url = ''https://x.test/jobs/1'',
     job_id = Some ''1''\<rparr>"

text \<open>
  Queries of an example page. A selector that is not CSS makes the query throw on every
  node; any other selector is looked up in the table of the node.
\<close>

definition unsupported :: "string list" where
  \<open>unsupported = [''h2:contains("Engineer")'', ''div:has('']\<close>

definition query :: "(string \<times> element) list \<Rightarrow> string \<Rightarrow> element option js" where
  "query kids selector =
     (if selector \<in> set unsupported then Throws else Value (map_of kids selector))"

definition query_all :: "(string \<times> container list) list \<Rightarrow> string \<Rightarrow> container list js" where
  "query_all kids selector =
     (if selector \<in> set unsupported then Throws
      else Value (case map_of kids selector of None \<Rightarrow> [] | Some cs \<Rightarrow> cs))"

text \<open>
  A listing page. Three containers match \<^verbatim>\<open>.job-card\<close>: one with a heading, a location and
  a link, one with no heading and a blank link text, one with no link. Another container
  matches \<^verbatim>\<open>article\<close>.
\<close>

definition heading :: element where
  "heading = \<lparr>tagName = ''H2'', textContent = '' Engineer '', href = []\<rparr>"

definition anchor :: element where
  "anchor = \<lparr>tagName = ''A'', textContent = ''Apply'', href = ''https://x.test/jobs/1''\<rparr>"

definition place :: element where
  "place = \<lparr>tagName = ''SPAN'', textContent = ''Pune'', href = []\<rparr>"

definition job_card :: container where
  \<open>job_card = \<lparr>self = \<lparr>tagName = ''DIV'', textContent = '' Engineer Pune Apply'', href = []\<rparr>,
     querySelector = query
       [(''h2'', heading), (''.location'', place), (''a[href*="/jobs/"]'', anchor)]\<rparr>\<close>

definition untitled :: container where
  \<open>untitled = \<lparr>self = \<lparr>tagName = ''DIV'', textContent = ''Pune   '', href = []\<rparr>,
     querySelector = query
       [(''.location'', place),
        (''a[href*="/jobs/"]'',
           \<lparr>tagName = ''A'', textContent = ''  '', href = ''https://x.test/jobs/7''\<rparr>)]\<rparr>\<close>

definition unlinked :: container where
  \<open>unlinked = \<lparr>self = \<lparr>tagName = ''DIV'', textContent = '' Engineer Pune'', href = []\<rparr>,
     querySelector = query [(''h2'', heading), (''.location'', place)]\<rparr>\<close>

definition story :: container where
  \<open>story = \<lparr>self = \<lparr>tagName = ''ARTICLE'', textContent = ''Analyst Apply'', href = []\<rparr>,
     querySelector = query
       [(''h2'', \<lparr>tagName = ''H2'', textContent = ''Analyst'', href = []\<rparr>),
        (''a[href*="/jobs/"]'',
           \<lparr>tagName = ''A'', textContent = ''Apply'', href = ''https://x.test/jobs/2''\<rparr>)]\<rparr>\<close>

definition listing :: document where
  \<open>listing = \<lparr>querySelectorAll = query_all
       [(''.job-card'', [job_card, untitled, unlinked]), (''article'', [story])]\<rparr>\<close>

definition patterns :: selectors where
  \<open>patterns = \<lparr>containers = [''.job-card'', ''article''], title_selectors = [''.job-title'', ''h2''],
     location_selectors = [''.location''], link_selectors = [''a[href*="/jobs/"]'']\<rparr>\<close>

definition job_engineer :: job where
  "job_engineer = \<lparr>title = ''Engineer'', location = ''Pune'', url = ''https://x.test/jobs/1'',
     job_id = None\<rparr>"

definition job_analyst :: job where
  "job_analyst = \<lparr>title = ''Analyst'', location = [], url = ''https://x.test/jobs/2'',
     job_id = None\<rparr>"

definition job_unlinked :: job where
  "job_unlinked = \<lparr>title = ''Engineer'', location = ''Pune'', url = [], job_id = Some []\<rparr>"

text \<open>The same patterns behind a candidate that is not CSS.\<close>

definition patterns_bad_title :: selectors where
  \<open>patterns_bad_title = patterns\<lparr>title_selectors := [''h2:contains("Engineer")'', ''h2'']\<rparr>\<close>

definition patterns_bad_container :: selectors where
  \<open>patterns_bad_container = patterns\<lparr>containers := [''div:has('', ''.job-card'', ''article'']\<rparr>\<close>

text \<open>
  Pages over a counter. On \<open>quiet_page\<close> every call succeeds and nothing is found;
  \<open>listing_page\<close> shows \<open>listing\<close> and has no control to a next page.
\<close>

definition quiet_page :: "nat playwright" where
  "quiet_page =
     \<lparr>new_context = ret (), new_page = ret (), goto = (\<lambda>u. ret ()),
      wait_for_load_state = ret (), wait_for_selector = (\<lambda>p. ret False),
      wait_for_selector_list = ret (), query_selector_all = (\<lambda>p. ret False),
      page_document = ret \<lparr>querySelectorAll = (\<lambda>selector. Value [])\<rparr>, content = ret [],
      reload = ret (), screenshot = ret (), close = ret (),
      query_selector = (\<lambda>selector. ret None), is_visible = (\<lambda>h. ret False),
      get_attribute = (\<lambda>h. ret None), click = (\<lambda>h. ret ())\<rparr>"

definition listing_page :: "nat playwright" where
  "listing_page =
     quiet_page\<lparr>page_document := ret listing,
       wait_for_selector := (\<lambda>p. ret (p = ''.job-card''))\<rparr>"

text \<open>The network never goes idle.\<close>

definition busy_page :: "nat playwright" where
  "busy_page = listing_page\<lparr>wait_for_load_state := raise\<rparr>"

text \<open>Navigation fails, and so does closing the page.\<close>

definition broken_page :: "nat playwright" where
  "broken_page = listing_page\<lparr>goto := (\<lambda>u. raise), close := raise\<rparr>"

text \<open>The first navigation fails and the later ones succeed; the counter counts them.\<close>

definition flaky_page :: "nat playwright" where
  "flaky_page =
     listing_page\<lparr>goto := (\<lambda>u s. if s = 0 then (Raises, Suc s) else (Returns (), Suc s))\<rparr>"

text \<open>
  The counter is the page shown. Page 0 is the listing and has a visible next button
  without \<^verbatim>\<open>href\<close>; on the page after it the script cannot run.
\<close>

definition two_pages :: "nat playwright" where
  \<open>two_pages =
     listing_page\<lparr>page_document := (\<lambda>s. if s = 0 then (Returns listing, s) else (Raises, s)),
       query_selector := (\<lambda>selector. ret (if selector = ''[aria-label*="Next"]'' then Some 0 else None)),
       is_visible := (\<lambda>h. ret True),
       click := (\<lambda>h s. (Returns (), Suc s))\<rparr>\<close>

section \<open>Properties of the duplicate filter\<close>

lemma remdups_snoc:
  "remdups (ys @ [y]) = remdups (filter (\<lambda>x. x \<noteq> y) ys) @ [y]"
  by (induction ys) auto

lemma filter_not_in_snoc:
  "filter (\<lambda>j. j \<notin> set (jobs @ [job])) L =
     filter (\<lambda>j. j \<noteq> job) (filter (\<lambda>j. j \<notin> set jobs) L)"
  by (induction L) auto

text \<open>
  One pass of the loop keeps the list it starts from and appends, in order, the first
  occurrence of every incoming record that is not yet in it. (\<open>remdups\<close> keeps last
  occurrences, so it is applied to the reversed list.)
\<close>

lemma add_new_jobs_eq:
  "add_new_jobs jobs L = jobs @ rev (remdups (rev (filter (\<lambda>j. j \<notin> set jobs) L)))"
proof (induction L arbitrary: jobs)
  case Nil
  then show ?case by simp
next
  case (Cons job L)
  show ?case
  proof (cases "job \<in> set jobs")
    case True
    then show ?thesis using Cons.IH [of jobs] by simp
  next
    case False
    then show ?thesis using Cons.IH [of "jobs @ [job]"]
      by (simp add: filter_not_in_snoc remdups_snoc rev_filter conj_commute)
  qed
qed

lemma set_add_new_jobs: "set (add_new_jobs jobs L) = set jobs \<union> set L"
  by (auto simp: add_new_jobs_eq)

lemma distinct_add_new_jobs: "distinct jobs \<Longrightarrow> distinct (add_new_jobs jobs L)"
  by (auto simp: add_new_jobs_eq)

lemma prefix_add_new_jobs: "prefix jobs (add_new_jobs jobs L)"
  by (simp add: add_new_jobs_eq)

lemma add_new_jobs_append:
  "add_new_jobs jobs (L @ M) = add_new_jobs (add_new_jobs jobs L) M"
  by (induction L arbitrary: jobs) auto

lemma foldl_add_new_jobs: "foldl add_new_jobs jobs pages = add_new_jobs jobs (concat pages)"
  by (induction pages arbitrary: jobs) (auto simp: add_new_jobs_append)

text \<open>
  Claim C1, as the code has it. The accumulator of a run identifies records by equality
  of all their fields (title, location, url and job id, each compared exactly). Over the
  pages of a run, in order, the accumulated list is the list the run started from,
  followed by the first occurrence of every record not already in it, in the order of
  first appearance; later occurrences of an equal record are discarded.
\<close>

theorem accumulated_jobs_first_seen:
  "foldl add_new_jobs jobs pages =
     jobs @ rev (remdups (rev (filter (\<lambda>j. j \<notin> set jobs) (concat pages))))"
  by (simp only: foldl_add_new_jobs add_new_jobs_eq)

text \<open>
  The claim as the specification words it fails: three records with the same key in the
  sense of \<open>spec_key\<close> are all kept, because they differ in location or in the case of
  the title.
\<close>

theorem spec_key_duplicates_kept:
  "spec_key job_delhi = spec_key job_pune \<and> spec_key job_upper = spec_key job_pune \<and>
   add_new_jobs [] [job_pune, job_delhi, job_upper] = [job_pune, job_delhi, job_upper]"
  by (simp add: spec_key_def job_pune_def job_delhi_def job_upper_def lower_def to_lower_def
      js_whitespace_def)

text \<open>
  Claim C8: merging a list of records into the accumulator and then merging the same list
  again adds nothing.
\<close>

theorem add_new_jobs_idempotent:
  "add_new_jobs (add_new_jobs jobs L) L = add_new_jobs jobs L"
proof -
  have "filter (\<lambda>j. j \<notin> set (add_new_jobs jobs L)) L = []"
    by (simp add: set_add_new_jobs)
  then show ?thesis
    by (simp add: add_new_jobs_eq [of "add_new_jobs jobs L" L])
qed

end
